theory Spec2Isabelle
  imports Complex_Main
begin

section \<open>Errors as values\<close>

text \<open>
  The two exceptions the physics kernel of \<^verbatim>\<open>simulation.py\<close> can raise: \<^verbatim>\<open>ValueError\<close>
  (a denominator bound below 1) and \<^verbatim>\<open>ZeroDivisionError\<close> (a rational division by zero).
  A fallible operation returns \<open>error + 'a\<close>, \<open>Inl\<close> being the raised exception.
\<close>

datatype error = ValueError | ZeroDivisionError

fun bind_result :: "error + 'a \<Rightarrow> ('a \<Rightarrow> error + 'b) \<Rightarrow> error + 'b" where
  "bind_result (Inl e) f = Inl e"
| "bind_result (Inr a) f = f a"

section \<open>Exact rationals: \<^verbatim>\<open>Fraction.limit_denominator\<close>\<close>

text \<open>
  Python's \<^verbatim>\<open>fractions.Fraction\<close> is an exact rational in lowest terms with a positive
  denominator, which is what \<^typ>\<open>rat\<close> with \<^const>\<open>quotient_of\<close> is. The standard
  library's \<^verbatim>\<open>limit_denominator\<close> is a continued-fraction search:
  \<^verbatim>\<open>
  if max_denominator < 1: raise ValueError(...)
  if self._denominator <= max_denominator: return Fraction(self)
  p0, q0, p1, q1 = 0, 1, 1, 0
  n, d = self._numerator, self._denominator
  while True:
      a = n//d
      q2 = q0+a*q1
      if q2 > max_denominator: break
      p0, q0, p1, q1 = p1, q1, p0+a*p1, q2
      n, d = d, n-a*d
  k = (max_denominator-q0)//q1
  bound1 = Fraction(p0+k*p1, q0+k*q1)
  bound2 = Fraction(p1, q1)
  if abs(bound2 - self) <= abs(bound1-self): return bound2
  else: return bound1
  \<close>
  The loop is \<open>ld_loop\<close>; \<open>None\<close> is the \<^verbatim>\<open>ZeroDivisionError\<close> of \<^verbatim>\<open>n//d\<close>.
\<close>

function ld_loop ::
  "int \<Rightarrow> int \<Rightarrow> int \<Rightarrow> int \<Rightarrow> int \<Rightarrow> int \<Rightarrow> int \<Rightarrow> (int \<times> int \<times> int \<times> int) option" where
  "ld_loop max_denominator p0 q0 p1 q1 n d =
     (if d = 0 then None
      else let a = n div d; q2 = q0 + a * q1 in
        if q2 > max_denominator then Some (p0, q0, p1, q1)
        else ld_loop max_denominator p1 q1 (p0 + a * p1) q2 d (n - a * d))"
  by pat_completeness auto
termination
  by (relation "measure (\<lambda>(m, p0, q0, p1, q1, n, d). nat \<bar>d\<bar>)")
     (auto simp: minus_div_mult_eq_mod abs_mod_less)

text \<open>The two-argument constructor \<^verbatim>\<open>Fraction(numerator, denominator)\<close>.\<close>

definition Fraction :: "int \<Rightarrow> int \<Rightarrow> error + rat" where
  "Fraction numerator denominator =
     (if denominator = 0 then Inl ZeroDivisionError
      else Inr (of_int numerator / of_int denominator))"

definition limit_denominator :: "rat \<Rightarrow> int \<Rightarrow> error + rat" where
  "limit_denominator self max_denominator =
     (if max_denominator < 1 then Inl ValueError
      else if snd (quotient_of self) \<le> max_denominator then Inr self
      else case ld_loop max_denominator 0 1 1 0 (fst (quotient_of self)) (snd (quotient_of self)) of
          None \<Rightarrow> Inl ZeroDivisionError
        | Some (p0, q0, p1, q1) \<Rightarrow>
            if q1 = 0 then Inl ZeroDivisionError
            else let k = (max_denominator - q0) div q1 in
              bind_result (Fraction (p0 + k * p1) (q0 + k * q1)) (\<lambda>bound1.
              bind_result (Fraction p1 q1) (\<lambda>bound2.
                if \<bar>bound2 - self\<bar> \<le> \<bar>bound1 - self\<bar> then Inr bound2 else Inr bound1)))"

section \<open>Blocks\<close>

text \<open>
  \<^verbatim>\<open>class Block2D\<close>: four exact rationals. The field \<^verbatim>\<open>size\<close> is \<open>size_blk\<close> here.
  The constructor caps every argument at denominator \<open>10^9\<close>; its arguments (Python ints,
  floats or Fractions) are rationals.
\<close>

record Block2D =
  mass :: rat
  v :: rat
  x :: rat
  size_blk :: rat

definition Block2D_init :: "rat \<Rightarrow> rat \<Rightarrow> rat \<Rightarrow> rat \<Rightarrow> error + Block2D" where
  "Block2D_init mass_arg v_arg x_arg size_arg =
     bind_result (limit_denominator mass_arg (10 ^ 9)) (\<lambda>m.
     bind_result (limit_denominator v_arg (10 ^ 9)) (\<lambda>vel.
     bind_result (limit_denominator x_arg (10 ^ 9)) (\<lambda>pos.
     bind_result (limit_denominator size_arg (10 ^ 9)) (\<lambda>sz.
       Inr \<lparr>mass = m, v = vel, x = pos, size_blk = sz\<rparr>))))"

text \<open>\<^verbatim>\<open>Block2D.simplify(max_denominator)\<close>: velocity, then position.\<close>

definition simplify :: "Block2D \<Rightarrow> int \<Rightarrow> error + Block2D" where
  "simplify self max_denominator =
     bind_result (limit_denominator (v self) max_denominator) (\<lambda>vel.
     bind_result (limit_denominator (x self) max_denominator) (\<lambda>pos.
       Inr (self\<lparr>v := vel, x := pos\<rparr>)))"

section \<open>The simulation state\<close>

record Simulation =
  width :: int
  block_0 :: Block2D
  block_1 :: Block2D
  wall_collisions :: int
  block_collisions :: int
  total_collisions :: int
  time_step :: rat
  simulation_speed :: int
  simplify_interval :: int
  simplify_counter :: int
  simplify_denominator :: int
  total_energy :: rat
  total_momentum :: rat
  initial_energy :: rat
  initial_momentum :: rat
  paused :: bool

text \<open>
  The methods \<^verbatim>\<open>_total_energy\<close> and \<^verbatim>\<open>_total_momentum\<close> (the fields of the same names
  hold their cached results). Both cap with the literal \<open>10**9\<close>.
\<close>

definition total_energy_fn :: "Simulation \<Rightarrow> error + rat" where
  "total_energy_fn self =
     limit_denominator
       (mass (block_0 self) * (v (block_0 self))\<^sup>2 / 2
        + mass (block_1 self) * (v (block_1 self))\<^sup>2 / 2) (10 ^ 9)"

definition total_momentum_fn :: "Simulation \<Rightarrow> error + rat" where
  "total_momentum_fn self =
     limit_denominator
       (mass (block_0 self) * v (block_0 self) + mass (block_1 self) * v (block_1 self)) (10 ^ 9)"

text \<open>
  \<^verbatim>\<open>Simulation.__init__(width)\<close>. The four cached quantities do not exist before their
  assignment; the record holds 0 there until they are assigned.
\<close>

definition Simulation_init :: "int \<Rightarrow> error + Simulation" where
  "Simulation_init width_arg =
     bind_result (Block2D_init 1 0 150 30) (\<lambda>b0.
     bind_result (Block2D_init 10000 (- 5) 600 60) (\<lambda>b1.
     bind_result (limit_denominator (1 / 100) (10 ^ 9)) (\<lambda>ts.
       let self = \<lparr>width = width_arg, block_0 = b0, block_1 = b1,
                    wall_collisions = 0, block_collisions = 0, total_collisions = 0,
                    time_step = ts, simulation_speed = 2 ^ 8,
                    simplify_interval = 100, simplify_counter = 0,
                    simplify_denominator = 10 ^ 9,
                    total_energy = 0, total_momentum = 0,
                    initial_energy = 0, initial_momentum = 0, paused = False\<rparr>
       in bind_result (total_energy_fn self) (\<lambda>e.
          bind_result (total_momentum_fn self) (\<lambda>p.
            Inr (self\<lparr>total_energy := e, total_momentum := p,
                       initial_energy := e, initial_momentum := p\<rparr>))))))"

text \<open>\<^verbatim>\<open>simplify_fractions\<close>: both blocks, then the time step, with the current cap.\<close>

definition simplify_fractions :: "Simulation \<Rightarrow> error + Simulation" where
  "simplify_fractions self =
     bind_result (simplify (block_0 self) (simplify_denominator self)) (\<lambda>b0.
     bind_result (simplify (block_1 self) (simplify_denominator self)) (\<lambda>b1.
     bind_result (limit_denominator (time_step self) (simplify_denominator self)) (\<lambda>ts.
       Inr (self\<lparr>block_0 := b0, block_1 := b1, time_step := ts\<rparr>))))"

section \<open>Collision detection and resolution\<close>

text \<open>
  \<^verbatim>\<open>detect_collisions\<close> returns one of the strings \<^verbatim>\<open>"wall_0"\<close>, \<^verbatim>\<open>"wall_1"\<close>,
  \<^verbatim>\<open>"blocks"\<close>, or \<^verbatim>\<open>None\<close>. It assigns nothing, so it returns no state.
\<close>

definition detect_collisions :: "Simulation \<Rightarrow> string option" where
  "detect_collisions self =
     (if x (block_0 self) \<le> size_blk (block_0 self) / 2 \<and> v (block_0 self) < 0
        then Some ''wall_0''
      else if x (block_1 self) \<le> size_blk (block_1 self) / 2 \<and> v (block_1 self) < 0
        then Some ''wall_1''
      else let min_distance = (size_blk (block_0 self) + size_blk (block_1 self)) / 2;
               actual_distance = x (block_1 self) - x (block_0 self)
           in if actual_distance \<le> min_distance \<and> v (block_0 self) > v (block_1 self)
                then Some ''blocks'' else None)"

text \<open>
  The locals \<^verbatim>\<open>new_v1\<close>, \<^verbatim>\<open>new_v2\<close> of the \<^verbatim>\<open>"blocks"\<close> branch, before they are capped,
  as functions of the locals \<^verbatim>\<open>m1, m2, v1, v2\<close> (the caller has excluded \<open>m1 + m2 = 0\<close>,
  where Python raises).
\<close>

definition new_v1 :: "rat \<Rightarrow> rat \<Rightarrow> rat \<Rightarrow> rat \<Rightarrow> rat" where
  "new_v1 m1 m2 v1 v2 = ((m1 - m2) * v1 + 2 * m2 * v2) / (m1 + m2)"

definition new_v2 :: "rat \<Rightarrow> rat \<Rightarrow> rat \<Rightarrow> rat \<Rightarrow> rat" where
  "new_v2 m1 m2 v1 v2 = ((m2 - m1) * v2 + 2 * m1 * v1) / (m1 + m2)"

text \<open>The body of the \<^verbatim>\<open>elif collision_type == "blocks"\<close> branch of \<^verbatim>\<open>handle_collision\<close>.\<close>

definition handle_blocks :: "Simulation \<Rightarrow> error + Simulation" where
  "handle_blocks self =
     (let m1 = mass (block_0 self); m2 = mass (block_1 self);
          v1 = v (block_0 self); v2 = v (block_1 self)
      in if m1 + m2 = 0 then Inl ZeroDivisionError
         else
           bind_result (limit_denominator (new_v1 m1 m2 v1 v2) (simplify_denominator self)) (\<lambda>c1.
           bind_result (limit_denominator (new_v2 m1 m2 v1 v2) (simplify_denominator self)) (\<lambda>c2.
             let self = self\<lparr>block_0 := (block_0 self)\<lparr>v := c1\<rparr>,
                             block_1 := (block_1 self)\<lparr>v := c2\<rparr>\<rparr>;
                 min_distance = (size_blk (block_0 self) + size_blk (block_1 self)) / 2;
                 actual_distance = x (block_1 self) - x (block_0 self)
             in bind_result
                  (if actual_distance < min_distance then
                     let overlap = min_distance - actual_distance;
                         total_mass = m1 + m2
                     in bind_result
                          (limit_denominator ((overlap * m2) / total_mass) (simplify_denominator self))
                          (\<lambda>pos_adj1.
                        bind_result
                          (limit_denominator ((overlap * m1) / total_mass) (simplify_denominator self))
                          (\<lambda>pos_adj2.
                          Inr (self\<lparr>block_0 := (block_0 self)\<lparr>x := x (block_0 self) - pos_adj1\<rparr>,
                                     block_1 := (block_1 self)\<lparr>x := x (block_1 self) + pos_adj2\<rparr>\<rparr>)))
                   else Inr self)
                  (\<lambda>self. Inr (self\<lparr>block_collisions := block_collisions self + 1,
                                     total_collisions := total_collisions self + 1\<rparr>)))))"

definition handle_collision :: "Simulation \<Rightarrow> string \<Rightarrow> error + Simulation" where
  "handle_collision self collision_type =
     bind_result
       (if collision_type = ''wall_0'' then
          Inr (self\<lparr>block_0 := (block_0 self)\<lparr>v := - v (block_0 self),
                                              x := size_blk (block_0 self) / 2\<rparr>,
                     wall_collisions := wall_collisions self + 1,
                     total_collisions := total_collisions self + 1\<rparr>)
        else if collision_type = ''wall_1'' then
          Inr (self\<lparr>block_1 := (block_1 self)\<lparr>v := - v (block_1 self),
                                              x := size_blk (block_1 self) / 2\<rparr>,
                     wall_collisions := wall_collisions self + 1,
                     total_collisions := total_collisions self + 1\<rparr>)
        else if collision_type = ''blocks'' then handle_blocks self
        else Inr self)
       (\<lambda>self.
          bind_result (total_energy_fn self) (\<lambda>e.
          bind_result (total_momentum_fn self) (\<lambda>p.
            Inr (self\<lparr>total_energy := e, total_momentum := p\<rparr>))))"

section \<open>Stepping, reset and tuning\<close>

text \<open>
  \<^verbatim>\<open>update\<close>. The test \<^verbatim>\<open>if collision_type:\<close> is on a value of \<^verbatim>\<open>detect_collisions\<close>,
  which is \<^verbatim>\<open>None\<close> or a non-empty string, so it is the test for \<open>Some\<close>.
  \<open>move_blocks\<close> is the pair of assignments \<^verbatim>\<open>self.block_i.x += self.block_i.v * self.time_step\<close>.
\<close>

definition move_blocks :: "Simulation \<Rightarrow> Simulation" where
  "move_blocks self =
     self\<lparr>block_0 := (block_0 self)\<lparr>x := x (block_0 self) + v (block_0 self) * time_step self\<rparr>,
          block_1 := (block_1 self)\<lparr>x := x (block_1 self) + v (block_1 self) * time_step self\<rparr>\<rparr>"

definition update :: "Simulation \<Rightarrow> error + Simulation" where
  "update self =
     (if paused self then Inr self
      else case detect_collisions self of
          Some collision_type \<Rightarrow> handle_collision self collision_type
        | None \<Rightarrow>
            let self = move_blocks self
            in bind_result
                 (case detect_collisions self of
                    Some collision_type \<Rightarrow> handle_collision self collision_type
                  | None \<Rightarrow> Inr self)
                 (\<lambda>self.
                    let self = self\<lparr>simplify_counter := simplify_counter self + 1\<rparr>
                    in if simplify_counter self \<ge> simplify_interval self then
                         bind_result (simplify_fractions self) (\<lambda>self.
                           Inr (self\<lparr>simplify_counter := 0\<rparr>))
                       else Inr self))"

definition reset :: "Simulation \<Rightarrow> rat \<Rightarrow> rat \<Rightarrow> rat \<Rightarrow> error + Simulation" where
  "reset self mass_0 mass_1 v_1 =
     bind_result (Block2D_init mass_0 0 150 30) (\<lambda>b0.
     bind_result (Block2D_init mass_1 v_1 600 60) (\<lambda>b1.
       let self = self\<lparr>block_0 := b0, block_1 := b1,
                       wall_collisions := 0, block_collisions := 0,
                       total_collisions := 0, simplify_counter := 0\<rparr>
       in bind_result (total_energy_fn self) (\<lambda>e.
          bind_result (total_momentum_fn self) (\<lambda>p.
            Inr (self\<lparr>total_energy := e, total_momentum := p,
                       initial_energy := e, initial_momentum := p\<rparr>)))))"

definition adjust_speed :: "Simulation \<Rightarrow> bool \<Rightarrow> Simulation" where
  "adjust_speed self increase =
     (if increase then self\<lparr>simulation_speed := min 100000 (simulation_speed self * 2)\<rparr>
      else self\<lparr>simulation_speed := max 1 (simulation_speed self div 2)\<rparr>)"

definition adjust_precision :: "Simulation \<Rightarrow> bool \<Rightarrow> error + Simulation" where
  "adjust_precision self increase =
     simplify_fractions
       (if increase
          then self\<lparr>simplify_denominator := min (10 ^ 12) (simplify_denominator self * 10)\<rparr>
        else self\<lparr>simplify_denominator := max (10 ^ 3) (simplify_denominator self div 10)\<rparr>)"

section \<open>The callers: the step loop and the key handlers\<close>

text \<open>
  The main loop runs \<^verbatim>\<open>for _ in range(sim.simulation_speed): sim.update()\<close>; an exception
  ends the run.
\<close>

fun update_times :: "nat \<Rightarrow> Simulation \<Rightarrow> error + Simulation" where
  "update_times 0 self = Inr self"
| "update_times (Suc n) self = bind_result (update self) (update_times n)"

text \<open>
  The operations the event loop applies to the one simulation object, in any order:
  a step, a reset, the two tuning calls, and \<^verbatim>\<open>sim.paused = not sim.paused\<close>.
\<close>

datatype command =
    Update
  | Reset rat rat rat
  | AdjustSpeed bool
  | AdjustPrecision bool
  | TogglePause

fun is_reset :: "command \<Rightarrow> bool" where
  "is_reset (Reset a b c) = True"
| "is_reset other = False"

fun apply_command :: "Simulation \<Rightarrow> command \<Rightarrow> error + Simulation" where
  "apply_command self Update = update self"
| "apply_command self (Reset mass_0 mass_1 v_1) = reset self mass_0 mass_1 v_1"
| "apply_command self (AdjustSpeed increase) = Inr (adjust_speed self increase)"
| "apply_command self (AdjustPrecision increase) = adjust_precision self increase"
| "apply_command self TogglePause = Inr (self\<lparr>paused := \<not> paused self\<rparr>)"

fun run :: "Simulation \<Rightarrow> command list \<Rightarrow> error + Simulation" where
  "run self [] = Inr self"
| "run self (c # cs) = bind_result (apply_command self c) (\<lambda>self. run self cs)"

section \<open>Concrete states\<close>

text \<open>The state \<^verbatim>\<open>Simulation(width)\<close> constructs.\<close>

definition initial_sim :: "int \<Rightarrow> Simulation" where
  "initial_sim w = \<lparr>width = w,
     block_0 = \<lparr>mass = 1, v = 0, x = 150, size_blk = 30\<rparr>,
     block_1 = \<lparr>mass = 10000, v = - 5, x = 600, size_blk = 60\<rparr>,
     wall_collisions = 0, block_collisions = 0, total_collisions = 0,
     time_step = 1 / 100, simulation_speed = 256,
     simplify_interval = 100, simplify_counter = 0,
     simplify_denominator = 1000000000,
     total_energy = 125000, total_momentum = - 50000,
     initial_energy = 125000, initial_momentum = - 50000, paused = False\<rparr>"

text \<open>
  A state at the lowest precision (cap \<open>10^3\<close>): block 0, of mass \<open>1/7\<close>, touches the wall
  moving left at \<open>1/1000\<close>; block 1 is at rest.
\<close>

definition low_precision_sim :: Simulation where
  "low_precision_sim = \<lparr>width = 1200,
     block_0 = \<lparr>mass = 1 / 7, v = - (1 / 1000), x = 15, size_blk = 30\<rparr>,
     block_1 = \<lparr>mass = 10000, v = 0, x = 600, size_blk = 60\<rparr>,
     wall_collisions = 0, block_collisions = 0, total_collisions = 0,
     time_step = 1 / 100, simulation_speed = 256,
     simplify_interval = 100, simplify_counter = 0,
     simplify_denominator = 1000,
     total_energy = 1 / 14000000, total_momentum = - (1 / 7000),
     initial_energy = 1 / 14000000, initial_momentum = - (1 / 7000), paused = False\<rparr>"

text \<open>
  Both blocks at the wall, overlapping and approaching: all three conditions of the
  detector hold at once.
\<close>

definition crowded_sim :: Simulation where
  "crowded_sim = (initial_sim 1200)
     \<lparr>block_0 := \<lparr>mass = 1, v = - 1, x = 10, size_blk = 30\<rparr>,
      block_1 := \<lparr>mass = 10000, v = - 5, x = 20, size_blk = 60\<rparr>\<rparr>"

text \<open>The blocks in contact, block 1 moving left onto block 0 at rest.\<close>

definition touching_sim :: Simulation where
  "touching_sim = (initial_sim 1200)
     \<lparr>block_0 := \<lparr>mass = 1, v = 0, x = 150, size_blk = 30\<rparr>,
      block_1 := \<lparr>mass = 100, v = - 1, x = 195, size_blk = 60\<rparr>,
      total_energy := 50, total_momentum := - 100,
      initial_energy := 50, initial_momentum := - 100\<rparr>"

text \<open>
  After \<^verbatim>\<open>reset(1, 100, -40500)\<close> and one precision decrease on the constructed state:
  block 1 reaches block 0 in a single step.
\<close>

definition fast_sim :: Simulation where
  "fast_sim = (initial_sim 1200)
     \<lparr>block_1 := \<lparr>mass = 100, v = - 40500, x = 600, size_blk = 60\<rparr>,
      simplify_denominator := 100000000,
      total_energy := 82012500000, total_momentum := - 4050000,
      initial_energy := 82012500000, initial_momentum := - 4050000\<rparr>"

text \<open>The state one step, one speed increase and a pause later: the blocks have collided.\<close>

definition collided_sim :: Simulation where
  "collided_sim = fast_sim
     \<lparr>block_0 := \<lparr>mass = 1, v = - (8100000 / 101), x = 150, size_blk = 30\<rparr>,
      block_1 := \<lparr>mass = 100, v = - (4009500 / 101), x = 195, size_blk = 60\<rparr>,
      block_collisions := 1, total_collisions := 1,
      simulation_speed := 512, simplify_counter := 1, paused := True\<rparr>"

text \<open>The low-precision state after block 0 has bounced off the wall.\<close>

definition bounced_sim :: Simulation where
  "bounced_sim = low_precision_sim
     \<lparr>block_0 := \<lparr>mass = 1 / 7, v = 1 / 1000, x = 15, size_blk = 30\<rparr>,
      wall_collisions := 1, total_collisions := 1,
      total_energy := 1 / 14000000, total_momentum := 1 / 7000\<rparr>"

text \<open>The low-precision state after \<^verbatim>\<open>reset(1, 100, -1)\<close>.\<close>

definition restarted_sim :: Simulation where
  "restarted_sim = low_precision_sim
     \<lparr>block_0 := \<lparr>mass = 1, v = 0, x = 150, size_blk = 30\<rparr>,
      block_1 := \<lparr>mass = 100, v = - 1, x = 600, size_blk = 60\<rparr>,
      total_energy := 50, total_momentum := - 100,
      initial_energy := 50, initial_momentum := - 100\<rparr>"

section \<open>Results of fallible operations\<close>

lemma bind_result_Inr_iff:
  "bind_result m f = Inr y \<longleftrightarrow> (\<exists>a. m = Inr a \<and> f a = Inr y)"
  by (cases m) simp_all

section \<open>\<open>limit_denominator\<close> returns\<close>

lemma ld_loop_total:
  "coprime n d \<Longrightarrow> 0 \<le> d \<Longrightarrow> 0 \<le> q0 \<Longrightarrow> q0 \<le> m \<Longrightarrow> 0 \<le> q1 \<Longrightarrow> q1 \<le> m
     \<Longrightarrow> q1 = 0 \<or> 0 \<le> n \<Longrightarrow> m < q1 * n + q0 * d \<Longrightarrow>
   \<exists>p0' q0' p1' q1'. ld_loop m p0 q0 p1 q1 n d = Some (p0', q0', p1', q1')
      \<and> 0 \<le> q0' \<and> q0' \<le> m \<and> 0 < q1' \<and> q1' \<le> m"
proof (induction m p0 q0 p1 q1 n d rule: ld_loop.induct)
  case (1 m p0 q0 p1 q1 n d)
  have dnz: "d \<noteq> 0"
  proof
    assume d0: "d = 0"
    with "1.prems"(1) have "\<bar>n\<bar> = 1" by simp
    then have "q1 * n \<le> q1" using "1.prems"(5)
      by (metis abs_le_D1 abs_mult abs_of_nonneg mult.right_neutral order_refl)
    with d0 "1.prems" show False by simp
  qed
  then have dpos: "0 < d" using "1.prems"(2) by simp
  define a where "a = n div d"
  define q2 where "q2 = q0 + a * q1"
  have aq: "0 \<le> a * q1"
  proof (cases "q1 = 0")
    case True then show ?thesis by simp
  next
    case False
    with "1.prems"(7) have "0 \<le> n" by simp
    then have "0 \<le> a" unfolding a_def using dpos by (simp add: pos_imp_zdiv_nonneg_iff)
    then show ?thesis using "1.prems"(5) by simp
  qed
  show ?case
  proof (cases "q2 > m")
    case True
    have "q1 \<noteq> 0"
    proof
      assume "q1 = 0"
      then have "q2 = q0" by (simp add: q2_def)
      with True "1.prems"(4) show False by simp
    qed
    then have "0 < q1" using "1.prems"(5) by simp
    moreover have "ld_loop m p0 q0 p1 q1 n d = Some (p0, q0, p1, q1)"
      using dnz True by (simp add: a_def q2_def Let_def)
    ultimately show ?thesis using "1.prems" by simp
  next
    case False
    have step: "ld_loop m p0 q0 p1 q1 n d = ld_loop m p1 q1 (p0 + a * p1) q2 d (n - a * d)"
      using dnz False by (subst ld_loop.simps) (simp add: a_def q2_def Let_def)
    have md: "n - a * d = n mod d" by (simp add: a_def minus_div_mult_eq_mod)
    have c: "coprime d (n - a * d)"
      using "1.prems"(1) dnz unfolding md by (simp add: coprime_commute coprime_mod_right_iff)
    have nn: "0 \<le> n - a * d" unfolding md using dpos by simp
    have q2nn: "0 \<le> q2" unfolding q2_def using aq "1.prems"(3) by simp
    have q2m: "q2 \<le> m" using False by simp
    have inv: "m < q2 * d + q1 * (n - a * d)"
    proof -
      have "q2 * d + q1 * (n - a * d) = q1 * n + q0 * d"
        by (simp add: q2_def algebra_simps)
      with "1.prems"(8) show ?thesis by simp
    qed
    have "\<exists>p0' q0' p1' q1'. ld_loop m p1 q1 (p0 + a * p1) q2 d (n - a * d) = Some (p0', q0', p1', q1')
      \<and> 0 \<le> q0' \<and> q0' \<le> m \<and> 0 < q1' \<and> q1' \<le> m"
      using "1.IH"[OF dnz a_def q2_def False c nn "1.prems"(5) "1.prems"(6) q2nn q2m _ inv] dpos
      by simp
    then show ?thesis unfolding step .
  qed
qed

lemma quotient_of_coprime_fst_snd: "coprime (fst (quotient_of r)) (snd (quotient_of r))"
  by (cases "quotient_of r") (simp add: quotient_of_coprime)

lemma limit_denominator_total:
  assumes "1 \<le> m"
  shows "\<exists>r'. limit_denominator r m = Inr r'"
proof (cases "snd (quotient_of r) \<le> m")
  case True
  with assms show ?thesis by (simp add: limit_denominator_def)
next
  case False
  have "\<exists>p0' q0' p1' q1'. ld_loop m 0 1 1 0 (fst (quotient_of r)) (snd (quotient_of r)) = Some (p0', q0', p1', q1')
      \<and> 0 \<le> q0' \<and> q0' \<le> m \<and> 0 < q1' \<and> q1' \<le> m"
    using assms False quotient_of_denom_pos'[of r]
    by (intro ld_loop_total) (simp_all add: quotient_of_coprime_fst_snd)
  then obtain p0' q0' p1' q1' where
    L: "ld_loop m 0 1 1 0 (fst (quotient_of r)) (snd (quotient_of r)) = Some (p0', q0', p1', q1')"
    and q: "0 \<le> q0'" "q0' \<le> m" "0 < q1'" "q1' \<le> m" by blast
  define k where "k = (m - q0') div q1'"
  have k0: "0 \<le> k" unfolding k_def using q by (simp add: pos_imp_zdiv_nonneg_iff)
  have "0 < q0' + k * q1'"
  proof (cases "q0' = 0")
    case True
    then have "0 < k" unfolding k_def using q
      by (simp add: pos_imp_zdiv_pos_iff)
    then have "1 \<le> k" by simp
    then have "q1' \<le> k * q1'" using q by (simp add: mult_le_cancel_right1)
    then show ?thesis using True q by simp
  next
    case False
    then have "0 < q0'" using q by simp
    moreover have "0 \<le> k * q1'" using k0 q by simp
    ultimately show ?thesis by simp
  qed
  then have nz: "q0' + k * q1' \<noteq> 0" by simp
  show ?thesis
    using assms False L q(3) nz
    by (simp add: limit_denominator_def Fraction_def Let_def k_def[symmetric])
qed

lemma limit_denominator_small:
  "1 \<le> m \<Longrightarrow> snd (quotient_of r) \<le> m \<Longrightarrow> limit_denominator r m = Inr r"
  by (simp add: limit_denominator_def)


lemma ld9_total: "\<exists>r'. limit_denominator r (10 ^ 9) = Inr r'"
  by (rule limit_denominator_total) simp

lemma total_energy_fn_total: "\<exists>e. total_energy_fn s = Inr e"
  unfolding total_energy_fn_def by (rule ld9_total)

lemma total_momentum_fn_total: "\<exists>p. total_momentum_fn s = Inr p"
  unfolding total_momentum_fn_def by (rule ld9_total)

lemma Block2D_init_total:
  "\<exists>b. Block2D_init m vel pos sz = Inr b
     \<and> limit_denominator m (10 ^ 9) = Inr (mass b)
     \<and> limit_denominator vel (10 ^ 9) = Inr (v b)
     \<and> limit_denominator pos (10 ^ 9) = Inr (x b)
     \<and> limit_denominator sz (10 ^ 9) = Inr (size_blk b)"
proof -
  obtain m' where m: "limit_denominator m (10 ^ 9) = Inr m'" using ld9_total by blast
  obtain v' where v: "limit_denominator vel (10 ^ 9) = Inr v'" using ld9_total by blast
  obtain x' where x: "limit_denominator pos (10 ^ 9) = Inr x'" using ld9_total by blast
  obtain s' where s: "limit_denominator sz (10 ^ 9) = Inr s'" using ld9_total by blast
  show ?thesis using m v x s by (simp add: Block2D_init_def)
qed

lemma limit_denominator_int [simp]:
  "limit_denominator 0 (numeral m) = Inr 0"
  "limit_denominator 1 (numeral m) = Inr 1"
  "limit_denominator (numeral k) (numeral m) = Inr (numeral k)"
  "limit_denominator (- 1) (numeral m) = Inr (- 1)"
  "limit_denominator (- numeral k) (numeral m) = Inr (- numeral k)"
  by (simp_all add: limit_denominator_small)

section \<open>Resolution\<close>

lemma refresh_totals:
  "\<exists>e p. total_energy_fn t = Inr e \<and> total_momentum_fn t = Inr p
     \<and> bind_result (total_energy_fn t) (\<lambda>e.
         bind_result (total_momentum_fn t) (\<lambda>p.
           Inr (t\<lparr>total_energy := e, total_momentum := p\<rparr>)))
       = Inr (t\<lparr>total_energy := e, total_momentum := p\<rparr>)"
proof -
  obtain e where e: "total_energy_fn t = Inr e" using total_energy_fn_total by blast
  obtain p where p: "total_momentum_fn t = Inr p" using total_momentum_fn_total by blast
  show ?thesis by (simp add: e p)
qed

lemma handle_collision_wall_0:
  "\<exists>e p. handle_collision s ''wall_0'' =
     Inr (s\<lparr>block_0 := (block_0 s)\<lparr>v := - v (block_0 s), x := size_blk (block_0 s) / 2\<rparr>,
            wall_collisions := wall_collisions s + 1,
            total_collisions := total_collisions s + 1,
            total_energy := e, total_momentum := p\<rparr>)"
proof -
  define t where "t = s\<lparr>block_0 := (block_0 s)\<lparr>v := - v (block_0 s), x := size_blk (block_0 s) / 2\<rparr>,
            wall_collisions := wall_collisions s + 1,
            total_collisions := total_collisions s + 1\<rparr>"
  obtain e p where "bind_result (total_energy_fn t) (\<lambda>e.
         bind_result (total_momentum_fn t) (\<lambda>p.
           Inr (t\<lparr>total_energy := e, total_momentum := p\<rparr>)))
       = Inr (t\<lparr>total_energy := e, total_momentum := p\<rparr>)"
    using refresh_totals[of t] by blast
  then have "handle_collision s ''wall_0'' = Inr (t\<lparr>total_energy := e, total_momentum := p\<rparr>)"
    by (simp add: handle_collision_def t_def)
  then show ?thesis unfolding t_def by blast
qed

lemma handle_collision_wall_1:
  "\<exists>e p. handle_collision s ''wall_1'' =
     Inr (s\<lparr>block_1 := (block_1 s)\<lparr>v := - v (block_1 s), x := size_blk (block_1 s) / 2\<rparr>,
            wall_collisions := wall_collisions s + 1,
            total_collisions := total_collisions s + 1,
            total_energy := e, total_momentum := p\<rparr>)"
proof -
  define t where "t = s\<lparr>block_1 := (block_1 s)\<lparr>v := - v (block_1 s), x := size_blk (block_1 s) / 2\<rparr>,
            wall_collisions := wall_collisions s + 1,
            total_collisions := total_collisions s + 1\<rparr>"
  obtain e p where "bind_result (total_energy_fn t) (\<lambda>e.
         bind_result (total_momentum_fn t) (\<lambda>p.
           Inr (t\<lparr>total_energy := e, total_momentum := p\<rparr>)))
       = Inr (t\<lparr>total_energy := e, total_momentum := p\<rparr>)"
    using refresh_totals[of t] by blast
  then have "handle_collision s ''wall_1'' = Inr (t\<lparr>total_energy := e, total_momentum := p\<rparr>)"
    by (simp add: handle_collision_def t_def)
  then show ?thesis unfolding t_def by blast
qed

lemma detect_collisions_cases:
  "detect_collisions s = Some c \<Longrightarrow> c = ''wall_0'' \<or> c = ''wall_1'' \<or> c = ''blocks''"
  by (auto simp: detect_collisions_def Let_def split: if_splits)

lemma handle_blocks_Inr:
  assumes "handle_blocks s = Inr t"
  shows "limit_denominator (new_v1 (mass (block_0 s)) (mass (block_1 s)) (v (block_0 s)) (v (block_1 s)))
           (simplify_denominator s) = Inr (v (block_0 t))"
    and "limit_denominator (new_v2 (mass (block_0 s)) (mass (block_1 s)) (v (block_0 s)) (v (block_1 s)))
           (simplify_denominator s) = Inr (v (block_1 t))"
    and "mass (block_0 s) + mass (block_1 s) \<noteq> 0"
    and "block_collisions t = block_collisions s + 1"
    and "total_collisions t = total_collisions s + 1"
    and "wall_collisions t = wall_collisions s"
    and "mass (block_0 t) = mass (block_0 s)" and "mass (block_1 t) = mass (block_1 s)"
    and "size_blk (block_0 t) = size_blk (block_0 s)" and "size_blk (block_1 t) = size_blk (block_1 s)"
    and "paused t = paused s" and "simulation_speed t = simulation_speed s"
    and "simplify_denominator t = simplify_denominator s"
    and "simplify_counter t = simplify_counter s" and "simplify_interval t = simplify_interval s"
    and "time_step t = time_step s"
  using assms
  by (auto simp: handle_blocks_def Let_def bind_result_Inr_iff split: if_splits)

lemma handle_collision_Inr:
  assumes "handle_collision s c = Inr s'"
  shows "\<exists>t e p.
           (if c = ''wall_0'' then
              Inr (s\<lparr>block_0 := (block_0 s)\<lparr>v := - v (block_0 s), x := size_blk (block_0 s) / 2\<rparr>,
                     wall_collisions := wall_collisions s + 1,
                     total_collisions := total_collisions s + 1\<rparr>)
            else if c = ''wall_1'' then
              Inr (s\<lparr>block_1 := (block_1 s)\<lparr>v := - v (block_1 s), x := size_blk (block_1 s) / 2\<rparr>,
                     wall_collisions := wall_collisions s + 1,
                     total_collisions := total_collisions s + 1\<rparr>)
            else if c = ''blocks'' then handle_blocks s
            else Inr s) = Inr t
         \<and> total_energy_fn t = Inr e \<and> total_momentum_fn t = Inr p
         \<and> s' = t\<lparr>total_energy := e, total_momentum := p\<rparr>"
  using assms unfolding handle_collision_def bind_result_Inr_iff by blast

lemma handle_collision_counters:
  assumes "handle_collision s c = Inr s'"
  shows "wall_collisions s \<le> wall_collisions s'"
    and "block_collisions s \<le> block_collisions s'"
    and "total_collisions s \<le> total_collisions s'"
    and "total_collisions s' - total_collisions s
           = (wall_collisions s' - wall_collisions s) + (block_collisions s' - block_collisions s)"
    and "c = ''wall_0'' \<or> c = ''wall_1'' \<or> c = ''blocks'' \<Longrightarrow> total_collisions s' = total_collisions s + 1"
    and "paused s' = paused s" and "simulation_speed s' = simulation_speed s"
    and "simplify_denominator s' = simplify_denominator s"
    and "simplify_counter s' = simplify_counter s" and "simplify_interval s' = simplify_interval s"
    and "time_step s' = time_step s"
proof -
  obtain t e p where
    t: "(if c = ''wall_0'' then
              Inr (s\<lparr>block_0 := (block_0 s)\<lparr>v := - v (block_0 s), x := size_blk (block_0 s) / 2\<rparr>,
                     wall_collisions := wall_collisions s + 1,
                     total_collisions := total_collisions s + 1\<rparr>)
            else if c = ''wall_1'' then
              Inr (s\<lparr>block_1 := (block_1 s)\<lparr>v := - v (block_1 s), x := size_blk (block_1 s) / 2\<rparr>,
                     wall_collisions := wall_collisions s + 1,
                     total_collisions := total_collisions s + 1\<rparr>)
            else if c = ''blocks'' then handle_blocks s
            else Inr s) = Inr t"
    and s': "s' = t\<lparr>total_energy := e, total_momentum := p\<rparr>"
    using handle_collision_Inr[OF assms] by blast
  have A: "wall_collisions s \<le> wall_collisions t \<and> block_collisions s \<le> block_collisions t
      \<and> total_collisions s \<le> total_collisions t
      \<and> total_collisions t - total_collisions s
           = (wall_collisions t - wall_collisions s) + (block_collisions t - block_collisions s)
      \<and> (c = ''wall_0'' \<or> c = ''wall_1'' \<or> c = ''blocks'' \<longrightarrow> total_collisions t = total_collisions s + 1)
      \<and> paused t = paused s \<and> simulation_speed t = simulation_speed s
      \<and> simplify_denominator t = simplify_denominator s
      \<and> simplify_counter t = simplify_counter s \<and> simplify_interval t = simplify_interval s
      \<and> time_step t = time_step s"
  proof (cases "c = ''wall_0''")
    case True with t show ?thesis by auto
  next
    case n0: False
    show ?thesis
    proof (cases "c = ''wall_1''")
      case True with t n0 show ?thesis by auto
    next
      case n1: False
      show ?thesis
      proof (cases "c = ''blocks''")
        case True
        with t n0 n1 have "handle_blocks s = Inr t" by simp
        from handle_blocks_Inr[OF this] show ?thesis by simp
      next
        case False with t n0 n1 show ?thesis by auto
      qed
    qed
  qed
  show "wall_collisions s \<le> wall_collisions s'"
    and "block_collisions s \<le> block_collisions s'"
    and "total_collisions s \<le> total_collisions s'"
    and "total_collisions s' - total_collisions s
           = (wall_collisions s' - wall_collisions s) + (block_collisions s' - block_collisions s)"
    and "c = ''wall_0'' \<or> c = ''wall_1'' \<or> c = ''blocks'' \<Longrightarrow> total_collisions s' = total_collisions s + 1"
    and "paused s' = paused s" and "simulation_speed s' = simulation_speed s"
    and "simplify_denominator s' = simplify_denominator s"
    and "simplify_counter s' = simplify_counter s" and "simplify_interval s' = simplify_interval s"
    and "time_step s' = time_step s"
    using A by (simp_all add: s')
qed

lemma simplify_fractions_Inr:
  assumes "simplify_fractions s = Inr s'"
  shows "wall_collisions s' = wall_collisions s" and "block_collisions s' = block_collisions s"
    and "total_collisions s' = total_collisions s" and "paused s' = paused s"
    and "simulation_speed s' = simulation_speed s"
    and "simplify_denominator s' = simplify_denominator s"
    and "simplify_counter s' = simplify_counter s"
  using assms by (auto simp: simplify_fractions_def bind_result_Inr_iff)



section \<open>The constructor and the step\<close>

lemma init_eval: "Simulation_init w = Inr (initial_sim w)"
  by code_simp

lemma handle_blocks_total:
  assumes nz: "mass (block_0 s) + mass (block_1 s) \<noteq> 0" and cap: "1 \<le> simplify_denominator s"
  shows "\<exists>t. handle_blocks s = Inr t"
proof -
  obtain c1 where c1: "limit_denominator
      (new_v1 (mass (block_0 s)) (mass (block_1 s)) (v (block_0 s)) (v (block_1 s)))
      (simplify_denominator s) = Inr c1"
    using limit_denominator_total[OF cap] by blast
  obtain c2 where c2: "limit_denominator
      (new_v2 (mass (block_0 s)) (mass (block_1 s)) (v (block_0 s)) (v (block_1 s)))
      (simplify_denominator s) = Inr c2"
    using limit_denominator_total[OF cap] by blast
  define overlap where "overlap = (size_blk (block_0 s) + size_blk (block_1 s)) / 2
      - (x (block_1 s) - x (block_0 s))"
  obtain a1 where a1: "limit_denominator
      (overlap * mass (block_1 s) / (mass (block_0 s) + mass (block_1 s)))
      (simplify_denominator s) = Inr a1"
    using limit_denominator_total[OF cap] by blast
  obtain a2 where a2: "limit_denominator
      (overlap * mass (block_0 s) / (mass (block_0 s) + mass (block_1 s)))
      (simplify_denominator s) = Inr a2"
    using limit_denominator_total[OF cap] by blast
  show ?thesis
    using nz by (simp add: handle_blocks_def Let_def c1 c2 a1[unfolded overlap_def] a2[unfolded overlap_def])
qed

lemma handle_collision_total:
  assumes nz: "mass (block_0 s) + mass (block_1 s) \<noteq> 0" and cap: "1 \<le> simplify_denominator s"
  shows "\<exists>s'. handle_collision s c = Inr s'"
proof -
  have "\<exists>t. (if c = ''wall_0'' then
              Inr (s\<lparr>block_0 := (block_0 s)\<lparr>v := - v (block_0 s), x := size_blk (block_0 s) / 2\<rparr>,
                     wall_collisions := wall_collisions s + 1,
                     total_collisions := total_collisions s + 1\<rparr>)
            else if c = ''wall_1'' then
              Inr (s\<lparr>block_1 := (block_1 s)\<lparr>v := - v (block_1 s), x := size_blk (block_1 s) / 2\<rparr>,
                     wall_collisions := wall_collisions s + 1,
                     total_collisions := total_collisions s + 1\<rparr>)
            else if c = ''blocks'' then handle_blocks s
            else Inr s) = Inr t"
    using handle_blocks_total[OF nz cap] by simp
  then obtain t where t: "(if c = ''wall_0'' then
              Inr (s\<lparr>block_0 := (block_0 s)\<lparr>v := - v (block_0 s), x := size_blk (block_0 s) / 2\<rparr>,
                     wall_collisions := wall_collisions s + 1,
                     total_collisions := total_collisions s + 1\<rparr>)
            else if c = ''wall_1'' then
              Inr (s\<lparr>block_1 := (block_1 s)\<lparr>v := - v (block_1 s), x := size_blk (block_1 s) / 2\<rparr>,
                     wall_collisions := wall_collisions s + 1,
                     total_collisions := total_collisions s + 1\<rparr>)
            else if c = ''blocks'' then handle_blocks s
            else Inr s) = Inr t" by blast
  obtain e p where "bind_result (total_energy_fn t) (\<lambda>e.
         bind_result (total_momentum_fn t) (\<lambda>p.
           Inr (t\<lparr>total_energy := e, total_momentum := p\<rparr>)))
       = Inr (t\<lparr>total_energy := e, total_momentum := p\<rparr>)"
    using refresh_totals[of t] by blast
  then show ?thesis unfolding handle_collision_def t by simp
qed

lemma simplify_total:
  assumes "1 \<le> m"
  shows "\<exists>b'. simplify b m = Inr b'"
proof -
  obtain v' where v': "limit_denominator (v b) m = Inr v'"
    using limit_denominator_total[OF assms] by blast
  obtain x' where x': "limit_denominator (x b) m = Inr x'"
    using limit_denominator_total[OF assms] by blast
  show ?thesis by (simp add: simplify_def v' x')
qed

lemma simplify_fractions_total:
  assumes cap: "1 \<le> simplify_denominator s"
  shows "\<exists>s'. simplify_fractions s = Inr s'"
proof -
  obtain b0 where b0: "simplify (block_0 s) (simplify_denominator s) = Inr b0"
    using simplify_total[OF cap] by blast
  obtain b1 where b1: "simplify (block_1 s) (simplify_denominator s) = Inr b1"
    using simplify_total[OF cap] by blast
  obtain ts where ts: "limit_denominator (time_step s) (simplify_denominator s) = Inr ts"
    using limit_denominator_total[OF cap] by blast
  show ?thesis by (simp add: simplify_fractions_def b0 b1 ts)
qed

lemma move_blocks_fields [simp]:
  "mass (block_0 (move_blocks s)) = mass (block_0 s)"
  "mass (block_1 (move_blocks s)) = mass (block_1 s)"
  "simplify_denominator (move_blocks s) = simplify_denominator s"
  "wall_collisions (move_blocks s) = wall_collisions s"
  "block_collisions (move_blocks s) = block_collisions s"
  "total_collisions (move_blocks s) = total_collisions s"
  "simplify_counter (move_blocks s) = simplify_counter s"
  "simplify_interval (move_blocks s) = simplify_interval s"
  "paused (move_blocks s) = paused s"
  "simulation_speed (move_blocks s) = simulation_speed s"
  by (simp_all add: move_blocks_def)

text \<open>The part of \<open>update\<close> after the blocks have moved and a collision, if any, is resolved.\<close>

lemma update_unpaused_None:
  assumes "\<not> paused s" and "detect_collisions s = None"
  shows "update s =
     bind_result
       (case detect_collisions (move_blocks s) of
          Some collision_type \<Rightarrow> handle_collision (move_blocks s) collision_type
        | None \<Rightarrow> Inr (move_blocks s))
       (\<lambda>self.
          if simplify_counter self + 1 \<ge> simplify_interval self then
            bind_result (simplify_fractions (self\<lparr>simplify_counter := simplify_counter self + 1\<rparr>))
              (\<lambda>self. Inr (self\<lparr>simplify_counter := 0\<rparr>))
          else Inr (self\<lparr>simplify_counter := simplify_counter self + 1\<rparr>))"
  using assms by (simp add: update_def Let_def)

lemma update_unpaused_Some:
  assumes "\<not> paused s" and "detect_collisions s = Some c"
  shows "update s = handle_collision s c"
  using assms by (simp add: update_def)

lemma update_tail_counters:
  assumes "(if simplify_counter t + 1 \<ge> simplify_interval t then
            bind_result (simplify_fractions (t\<lparr>simplify_counter := simplify_counter t + 1\<rparr>))
              (\<lambda>self. Inr (self\<lparr>simplify_counter := 0\<rparr>))
          else Inr (t\<lparr>simplify_counter := simplify_counter t + 1\<rparr>)) = Inr s'"
  shows "wall_collisions s' = wall_collisions t" and "block_collisions s' = block_collisions t"
    and "total_collisions s' = total_collisions t"
    and "paused s' = paused t"
    and "simulation_speed s' = simulation_speed t"
    and "simplify_denominator s' = simplify_denominator t"
  using assms
  by (auto simp: bind_result_Inr_iff split: if_splits dest: simplify_fractions_Inr)

lemma update_tail_total:
  assumes "1 \<le> simplify_denominator t"
  shows "\<exists>s'. (if simplify_counter t + 1 \<ge> simplify_interval t then
            bind_result (simplify_fractions (t\<lparr>simplify_counter := simplify_counter t + 1\<rparr>))
              (\<lambda>self. Inr (self\<lparr>simplify_counter := 0\<rparr>))
          else Inr (t\<lparr>simplify_counter := simplify_counter t + 1\<rparr>)) = Inr s'"
proof -
  have "1 \<le> simplify_denominator (t\<lparr>simplify_counter := simplify_counter t + 1\<rparr>)"
    using assms by simp
  from simplify_fractions_total[OF this]
  obtain u where "simplify_fractions (t\<lparr>simplify_counter := simplify_counter t + 1\<rparr>) = Inr u"
    by blast
  then show ?thesis by simp
qed

lemma update_total:
  assumes nz: "mass (block_0 s) + mass (block_1 s) \<noteq> 0" and cap: "1 \<le> simplify_denominator s"
  shows "\<exists>s'. update s = Inr s'"
proof (cases "paused s")
  case True
  then show ?thesis by (simp add: update_def)
next
  case np: False
  show ?thesis
  proof (cases "detect_collisions s")
    case (Some c)
    with np handle_collision_total[OF nz cap, of c] show ?thesis
      by (simp add: update_unpaused_Some)
  next
    case None
    have "\<exists>t. (case detect_collisions (move_blocks s) of
          Some collision_type \<Rightarrow> handle_collision (move_blocks s) collision_type
        | None \<Rightarrow> Inr (move_blocks s)) = Inr t"
    proof (cases "detect_collisions (move_blocks s)")
      case None
      then show ?thesis by simp
    next
      case (Some c)
      have "\<exists>t. handle_collision (move_blocks s) c = Inr t"
        using nz cap by (intro handle_collision_total) simp_all
      with Some show ?thesis by simp
    qed
    then obtain t where t: "(case detect_collisions (move_blocks s) of
          Some collision_type \<Rightarrow> handle_collision (move_blocks s) collision_type
        | None \<Rightarrow> Inr (move_blocks s)) = Inr t" by blast
    have "simplify_denominator t = simplify_denominator s"
    proof (cases "detect_collisions (move_blocks s)")
      case None
      with t show ?thesis by auto
    next
      case (Some c)
      with t have "handle_collision (move_blocks s) c = Inr t" by simp
      from handle_collision_counters(8)[OF this] show ?thesis by simp
    qed
    with cap have "1 \<le> simplify_denominator t" by simp
    from update_tail_total[OF this] show ?thesis
      unfolding update_unpaused_None[OF np None] t by simp
  qed
qed

lemma update_counters:
  assumes np: "\<not> paused s" and u: "update s = Inr s'"
  shows "total_collisions s' =
           (if detect_collisions s = None \<and> detect_collisions (move_blocks s) = None
            then total_collisions s else total_collisions s + 1)"
    and "wall_collisions s \<le> wall_collisions s'"
    and "block_collisions s \<le> block_collisions s'"
    and "total_collisions s' - total_collisions s
           = (wall_collisions s' - wall_collisions s) + (block_collisions s' - block_collisions s)"
proof -
  have "total_collisions s' =
           (if detect_collisions s = None \<and> detect_collisions (move_blocks s) = None
            then total_collisions s else total_collisions s + 1)
      \<and> wall_collisions s \<le> wall_collisions s'
      \<and> block_collisions s \<le> block_collisions s'
      \<and> total_collisions s' - total_collisions s
           = (wall_collisions s' - wall_collisions s) + (block_collisions s' - block_collisions s)"
  proof (cases "detect_collisions s")
    case (Some c)
    with np u have h: "handle_collision s c = Inr s'" by (simp add: update_unpaused_Some)
    from handle_collision_counters[OF h] detect_collisions_cases[OF Some] Some
    show ?thesis by simp
  next
    case None
    from u obtain t where
      t: "(case detect_collisions (move_blocks s) of
          Some collision_type \<Rightarrow> handle_collision (move_blocks s) collision_type
        | None \<Rightarrow> Inr (move_blocks s)) = Inr t"
      and tail: "(if simplify_counter t + 1 \<ge> simplify_interval t then
            bind_result (simplify_fractions (t\<lparr>simplify_counter := simplify_counter t + 1\<rparr>))
              (\<lambda>self. Inr (self\<lparr>simplify_counter := 0\<rparr>))
          else Inr (t\<lparr>simplify_counter := simplify_counter t + 1\<rparr>)) = Inr s'"
      unfolding update_unpaused_None[OF np None] bind_result_Inr_iff by blast
    note tl = update_tail_counters[OF tail]
    show ?thesis
    proof (cases "detect_collisions (move_blocks s)")
      case n2: None
      with t have "t = move_blocks s" by simp
      with tl None n2 show ?thesis by simp
    next
      case (Some c)
      with t have h: "handle_collision (move_blocks s) c = Inr t" by simp
      from handle_collision_counters[OF h] detect_collisions_cases[OF Some] Some None tl
      show ?thesis by simp
    qed
  qed
  then show "total_collisions s' =
           (if detect_collisions s = None \<and> detect_collisions (move_blocks s) = None
            then total_collisions s else total_collisions s + 1)"
    and "wall_collisions s \<le> wall_collisions s'"
    and "block_collisions s \<le> block_collisions s'"
    and "total_collisions s' - total_collisions s
           = (wall_collisions s' - wall_collisions s) + (block_collisions s' - block_collisions s)"
    by simp_all
qed

section \<open>Reset\<close>

lemma totals_frame [simp]:
  "total_energy_fn (t\<lparr>total_energy := e, total_momentum := p, initial_energy := e', initial_momentum := p'\<rparr>)
     = total_energy_fn t"
  "total_momentum_fn (t\<lparr>total_energy := e, total_momentum := p, initial_energy := e', initial_momentum := p'\<rparr>)
     = total_momentum_fn t"
  "total_energy_fn (t\<lparr>total_energy := e, total_momentum := p\<rparr>) = total_energy_fn t"
  "total_momentum_fn (t\<lparr>total_energy := e, total_momentum := p\<rparr>) = total_momentum_fn t"
  by (simp_all add: total_energy_fn_def total_momentum_fn_def)

lemma reset_result:
  "\<exists>s'. reset s m0 m1 v1 = Inr s'
     \<and> limit_denominator m0 (10 ^ 9) = Inr (mass (block_0 s'))
     \<and> v (block_0 s') = 0 \<and> x (block_0 s') = 150 \<and> size_blk (block_0 s') = 30
     \<and> limit_denominator m1 (10 ^ 9) = Inr (mass (block_1 s'))
     \<and> limit_denominator v1 (10 ^ 9) = Inr (v (block_1 s'))
     \<and> x (block_1 s') = 600 \<and> size_blk (block_1 s') = 60
     \<and> wall_collisions s' = 0 \<and> block_collisions s' = 0 \<and> total_collisions s' = 0
     \<and> simplify_counter s' = 0
     \<and> total_energy_fn s' = Inr (total_energy s')
     \<and> total_momentum_fn s' = Inr (total_momentum s')
     \<and> initial_energy s' = total_energy s' \<and> initial_momentum s' = total_momentum s'
     \<and> paused s' = paused s \<and> simulation_speed s' = simulation_speed s
     \<and> simplify_denominator s' = simplify_denominator s
     \<and> time_step s' = time_step s \<and> simplify_interval s' = simplify_interval s
     \<and> width s' = width s"
proof -
  obtain b0 where b0: "Block2D_init m0 0 150 30 = Inr b0"
    and b0m: "limit_denominator m0 (10 ^ 9) = Inr (mass b0)"
    and b0v: "limit_denominator 0 (10 ^ 9) = Inr (v b0)"
    and b0x: "limit_denominator 150 (10 ^ 9) = Inr (x b0)"
    and b0s: "limit_denominator 30 (10 ^ 9) = Inr (size_blk b0)"
    using Block2D_init_total[of m0 0 150 30] by blast
  obtain b1 where b1: "Block2D_init m1 v1 600 60 = Inr b1"
    and b1m: "limit_denominator m1 (10 ^ 9) = Inr (mass b1)"
    and b1v: "limit_denominator v1 (10 ^ 9) = Inr (v b1)"
    and b1x: "limit_denominator 600 (10 ^ 9) = Inr (x b1)"
    and b1s: "limit_denominator 60 (10 ^ 9) = Inr (size_blk b1)"
    using Block2D_init_total[of m1 v1 600 60] by blast
  define t where "t = s\<lparr>block_0 := b0, block_1 := b1,
                       wall_collisions := 0, block_collisions := 0,
                       total_collisions := 0, simplify_counter := 0\<rparr>"
  obtain e where e: "total_energy_fn t = Inr e" using total_energy_fn_total by blast
  obtain p where p: "total_momentum_fn t = Inr p" using total_momentum_fn_total by blast
  have r: "reset s m0 m1 v1 = Inr (t\<lparr>total_energy := e, total_momentum := p,
                       initial_energy := e, initial_momentum := p\<rparr>)"
    by (simp add: reset_def b0 b1 Let_def t_def[symmetric] e p)
  have fixed: "v b0 = 0" "x b0 = 150" "size_blk b0 = 30" "x b1 = 600" "size_blk b1 = 60"
    using b0v b0x b0s b1x b1s by simp_all
  show ?thesis
    unfolding r using b0m b1m b1v fixed e p
    by (simp add: t_def)
qed

section \<open>The elastic collision formulas\<close>

lemma elastic_identity:
  assumes nz: "m1 + m2 \<noteq> (0::rat)"
  shows "m1 * new_v1 m1 m2 v1 v2 + m2 * new_v2 m1 m2 v1 v2 = m1 * v1 + m2 * v2"
proof -
  define a where "a = (m1 - m2) * v1 + 2 * m2 * v2"
  define b where "b = (m2 - m1) * v2 + 2 * m1 * v1"
  have "m1 * new_v1 m1 m2 v1 v2 + m2 * new_v2 m1 m2 v1 v2 = m1 * (a / (m1 + m2)) + m2 * (b / (m1 + m2))"
    by (simp add: new_v1_def new_v2_def a_def b_def)
  also have "\<dots> = (m1 * a + m2 * b) / (m1 + m2)"
    by (simp add: add_divide_distrib)
  also have "m1 * a + m2 * b = (m1 * v1 + m2 * v2) * (m1 + m2)"
    by (simp add: a_def b_def algebra_simps)
  also have "\<dots> / (m1 + m2) = m1 * v1 + m2 * v2" using nz by simp
  finally show ?thesis .
qed

section \<open>Counters along a run\<close>

lemma handle_collision_totals:
  assumes "handle_collision s c = Inr s'"
  shows "total_energy_fn s' = Inr (total_energy s')"
    and "total_momentum_fn s' = Inr (total_momentum s')"
proof -
  from handle_collision_Inr[OF assms] obtain t e p where
    "total_energy_fn t = Inr e" "total_momentum_fn t = Inr p"
    "s' = t\<lparr>total_energy := e, total_momentum := p\<rparr>" by blast
  then show "total_energy_fn s' = Inr (total_energy s')"
    and "total_momentum_fn s' = Inr (total_momentum s')" by simp_all
qed

lemma update_counters_any:
  assumes u: "update s = Inr s'"
  shows "wall_collisions s \<le> wall_collisions s'"
    and "block_collisions s \<le> block_collisions s'"
    and "total_collisions s \<le> total_collisions s'"
    and "total_collisions s' - total_collisions s
           = (wall_collisions s' - wall_collisions s) + (block_collisions s' - block_collisions s)"
proof -
  have "wall_collisions s \<le> wall_collisions s' \<and> block_collisions s \<le> block_collisions s'
      \<and> total_collisions s \<le> total_collisions s'
      \<and> total_collisions s' - total_collisions s
           = (wall_collisions s' - wall_collisions s) + (block_collisions s' - block_collisions s)"
  proof (cases "paused s")
    case True
    with u have "s' = s" by (simp add: update_def)
    then show ?thesis by simp
  next
    case False
    from update_counters[OF False u] show ?thesis by (simp split: if_splits)
  qed
  then show "wall_collisions s \<le> wall_collisions s'"
    and "block_collisions s \<le> block_collisions s'"
    and "total_collisions s \<le> total_collisions s'"
    and "total_collisions s' - total_collisions s
           = (wall_collisions s' - wall_collisions s) + (block_collisions s' - block_collisions s)"
    by simp_all
qed

lemma adjust_precision_counters:
  assumes "adjust_precision s b = Inr s'"
  shows "wall_collisions s' = wall_collisions s" and "block_collisions s' = block_collisions s"
    and "total_collisions s' = total_collisions s"
  using assms
  by (auto simp: adjust_precision_def split: if_splits dest: simplify_fractions_Inr)

lemma apply_command_consistent:
  assumes a: "apply_command s c = Inr s'"
    and inv: "total_collisions s = wall_collisions s + block_collisions s"
  shows "total_collisions s' = wall_collisions s' + block_collisions s'"
proof (cases c)
  case Update
  with a have "update s = Inr s'" by simp
  from update_counters_any(4)[OF this] inv show ?thesis by simp
next
  case (Reset m0 m1 v1)
  with a have "reset s m0 m1 v1 = Inr s'" by simp
  with reset_result[of s m0 m1 v1] show ?thesis by auto
next
  case (AdjustSpeed b)
  with a inv show ?thesis by (auto simp: adjust_speed_def)
next
  case (AdjustPrecision b)
  with a have "adjust_precision s b = Inr s'" by simp
  from adjust_precision_counters[OF this] inv show ?thesis by simp
next
  case TogglePause
  with a inv show ?thesis by auto
qed

lemma apply_command_mono:
  assumes a: "apply_command s c = Inr s'" and nr: "\<not> is_reset c"
  shows "wall_collisions s \<le> wall_collisions s' \<and> block_collisions s \<le> block_collisions s'
      \<and> total_collisions s \<le> total_collisions s'"
proof (cases c)
  case Update
  with a have "update s = Inr s'" by simp
  from update_counters_any(1-3)[OF this] show ?thesis by simp
next
  case (Reset m0 m1 v1)
  with nr show ?thesis by simp
next
  case (AdjustSpeed b)
  with a show ?thesis by (auto simp: adjust_speed_def)
next
  case (AdjustPrecision b)
  with a have "adjust_precision s b = Inr s'" by simp
  from adjust_precision_counters[OF this] show ?thesis by simp
next
  case TogglePause
  with a show ?thesis by auto
qed

lemma run_consistent:
  "run s cmds = Inr s' \<Longrightarrow> total_collisions s = wall_collisions s + block_collisions s
     \<Longrightarrow> total_collisions s' = wall_collisions s' + block_collisions s'"
proof (induction cmds arbitrary: s)
  case Nil
  then show ?case by simp
next
  case (Cons c cmds)
  from Cons.prems(1) obtain t where t: "apply_command s c = Inr t" and r: "run t cmds = Inr s'"
    by (auto simp: bind_result_Inr_iff)
  show ?case by (rule Cons.IH[OF r apply_command_consistent[OF t Cons.prems(2)]])
qed

lemma run_mono:
  "run s cmds = Inr s' \<Longrightarrow> list_all (\<lambda>c. \<not> is_reset c) cmds
     \<Longrightarrow> wall_collisions s \<le> wall_collisions s' \<and> block_collisions s \<le> block_collisions s'
      \<and> total_collisions s \<le> total_collisions s'"
proof (induction cmds arbitrary: s)
  case Nil
  then show ?case by simp
next
  case (Cons c cmds)
  from Cons.prems(1) obtain t where t: "apply_command s c = Inr t" and r: "run t cmds = Inr s'"
    by (auto simp: bind_result_Inr_iff)
  from Cons.prems(2) have nr: "\<not> is_reset c" and rest: "list_all (\<lambda>c. \<not> is_reset c) cmds"
    by simp_all
  from apply_command_mono[OF t nr] Cons.IH[OF r rest] show ?case by simp
qed

section \<open>Claims\<close>

text \<open>
  Claim C1. In a block-block resolution with positive masses, the new velocities as computed
  before capping, \<open>new_v1\<close> and \<open>new_v2\<close>, carry exactly the momentum of the old ones:
  \<open>m0 * new_v1 + m1 * new_v2 = m0 * v0 + m1 * v1\<close> in exact rational arithmetic. They are the
  values \<open>handle_collision\<close> then caps with the current \<open>simplify_denominator\<close> and stores.
\<close>

theorem blocks_momentum_exact:
  assumes "0 < mass (block_0 s)" and "0 < mass (block_1 s)"
  shows "mass (block_0 s) * new_v1 (mass (block_0 s)) (mass (block_1 s)) (v (block_0 s)) (v (block_1 s))
         + mass (block_1 s) * new_v2 (mass (block_0 s)) (mass (block_1 s)) (v (block_0 s)) (v (block_1 s))
         = mass (block_0 s) * v (block_0 s) + mass (block_1 s) * v (block_1 s)
       \<and> (\<forall>s'. handle_collision s ''blocks'' = Inr s' \<longrightarrow>
            limit_denominator
              (new_v1 (mass (block_0 s)) (mass (block_1 s)) (v (block_0 s)) (v (block_1 s)))
              (simplify_denominator s) = Inr (v (block_0 s'))
          \<and> limit_denominator
              (new_v2 (mass (block_0 s)) (mass (block_1 s)) (v (block_0 s)) (v (block_1 s)))
              (simplify_denominator s) = Inr (v (block_1 s')))"
proof (intro conjI allI impI)
  from assms have "mass (block_0 s) + mass (block_1 s) \<noteq> 0" by simp
  then show "mass (block_0 s) * new_v1 (mass (block_0 s)) (mass (block_1 s)) (v (block_0 s)) (v (block_1 s))
         + mass (block_1 s) * new_v2 (mass (block_0 s)) (mass (block_1 s)) (v (block_0 s)) (v (block_1 s))
         = mass (block_0 s) * v (block_0 s) + mass (block_1 s) * v (block_1 s)"
    by (rule elastic_identity)
next
  fix s' assume h: "handle_collision s ''blocks'' = Inr s'"
  from handle_collision_Inr[OF h] obtain t e p where
    t: "handle_blocks s = Inr t" and s': "s' = t\<lparr>total_energy := e, total_momentum := p\<rparr>"
    by auto
  from handle_blocks_Inr(1)[OF t] s'
  show "limit_denominator
              (new_v1 (mass (block_0 s)) (mass (block_1 s)) (v (block_0 s)) (v (block_1 s)))
              (simplify_denominator s) = Inr (v (block_0 s'))" by simp
  from handle_blocks_Inr(2)[OF t] s'
  show "limit_denominator
              (new_v2 (mass (block_0 s)) (mass (block_1 s)) (v (block_0 s)) (v (block_1 s)))
              (simplify_denominator s) = Inr (v (block_1 s'))" by simp
qed

text \<open>Masses 1 and 100, block 1 arriving at velocity \<open>-1\<close>: momentum \<open>-100\<close> before and after.\<close>

theorem blocks_momentum_exact_witness:
  "0 < mass (block_0 touching_sim) \<and> 0 < mass (block_1 touching_sim)
   \<and> handle_collision touching_sim ''blocks'' =
       Inr (touching_sim\<lparr>block_0 := \<lparr>mass = 1, v = - (200 / 101), x = 150, size_blk = 30\<rparr>,
              block_1 := \<lparr>mass = 100, v = - (99 / 101), x = 195, size_blk = 60\<rparr>,
              block_collisions := 1, total_collisions := 1\<rparr>)
   \<and> 1 * new_v1 1 100 0 (- 1) + 100 * new_v2 1 100 0 (- 1) = 1 * 0 + 100 * (- 1)
   \<and> limit_denominator (new_v1 1 100 0 (- 1)) 1000000000 = Inr (- (200 / 101))
   \<and> limit_denominator (new_v2 1 100 0 (- 1)) 1000000000 = Inr (- (99 / 101))"
proof -
  have p0: "0 < mass (block_0 touching_sim)" and p1: "0 < mass (block_1 touching_sim)"
    by (simp_all add: touching_sim_def initial_sim_def)
  have e: "handle_collision touching_sim ''blocks'' =
       Inr (touching_sim\<lparr>block_0 := \<lparr>mass = 1, v = - (200 / 101), x = 150, size_blk = 30\<rparr>,
              block_1 := \<lparr>mass = 100, v = - (99 / 101), x = 195, size_blk = 60\<rparr>,
              block_collisions := 1, total_collisions := 1\<rparr>)"
    by code_simp
  from blocks_momentum_exact[OF p0 p1] e show ?thesis
    using p0 p1 by (simp add: touching_sim_def initial_sim_def)
qed

text \<open>
  Claim C2, as the code has it. Neither \<open>reset\<close> nor the block constructor validates its
  arguments: for every rational mass (and, for the constructor, size) the call returns a
  state, and the stored value is the argument capped at denominator \<open>10^9\<close>, which is the
  argument itself when its denominator is at most \<open>10^9\<close>. So a zero or negative mass or
  size is stored, not rejected. (\<open>reset\<close> takes no size; it uses the sizes 30 and 60.)
\<close>

theorem reset_accepts_any_mass:
  "(\<exists>s'. reset s m0 m1 v1 = Inr s'
      \<and> limit_denominator m0 (10 ^ 9) = Inr (mass (block_0 s'))
      \<and> limit_denominator m1 (10 ^ 9) = Inr (mass (block_1 s'))
      \<and> (snd (quotient_of m0) \<le> 10 ^ 9 \<longrightarrow> mass (block_0 s') = m0)
      \<and> (snd (quotient_of m1) \<le> 10 ^ 9 \<longrightarrow> mass (block_1 s') = m1)
      \<and> size_blk (block_0 s') = 30 \<and> size_blk (block_1 s') = 60)
   \<and> (\<exists>b. Block2D_init m vel pos sz = Inr b
      \<and> limit_denominator m (10 ^ 9) = Inr (mass b)
      \<and> limit_denominator sz (10 ^ 9) = Inr (size_blk b)
      \<and> (snd (quotient_of m) \<le> 10 ^ 9 \<longrightarrow> mass b = m)
      \<and> (snd (quotient_of sz) \<le> 10 ^ 9 \<longrightarrow> size_blk b = sz))"
proof (rule conjI)
  have small: "\<And>r r'. limit_denominator r (10 ^ 9) = Inr r' \<Longrightarrow> snd (quotient_of r) \<le> 10 ^ 9 \<longrightarrow> r' = r"
  proof
    fix r r' :: rat
    assume a: "limit_denominator r (10 ^ 9) = Inr r'" and "snd (quotient_of r) \<le> 10 ^ 9"
    then have "limit_denominator r (10 ^ 9) = Inr r"
      by (intro limit_denominator_small) simp_all
    with a show "r' = r" by simp
  qed
  obtain s' where r: "reset s m0 m1 v1 = Inr s'"
    and f: "limit_denominator m0 (10 ^ 9) = Inr (mass (block_0 s'))"
      "limit_denominator m1 (10 ^ 9) = Inr (mass (block_1 s'))"
      "size_blk (block_0 s') = 30" "size_blk (block_1 s') = 60"
    using reset_result[of s m0 m1 v1] by blast
  from r f small[OF f(1)] small[OF f(2)]
  show "\<exists>s'. reset s m0 m1 v1 = Inr s'
      \<and> limit_denominator m0 (10 ^ 9) = Inr (mass (block_0 s'))
      \<and> limit_denominator m1 (10 ^ 9) = Inr (mass (block_1 s'))
      \<and> (snd (quotient_of m0) \<le> 10 ^ 9 \<longrightarrow> mass (block_0 s') = m0)
      \<and> (snd (quotient_of m1) \<le> 10 ^ 9 \<longrightarrow> mass (block_1 s') = m1)
      \<and> size_blk (block_0 s') = 30 \<and> size_blk (block_1 s') = 60"
    by blast
  obtain b where b: "Block2D_init m vel pos sz = Inr b"
    and g: "limit_denominator m (10 ^ 9) = Inr (mass b)"
      "limit_denominator sz (10 ^ 9) = Inr (size_blk b)"
    using Block2D_init_total[of m vel pos sz] by blast
  from b g small[OF g(1)] small[OF g(2)]
  show "\<exists>b. Block2D_init m vel pos sz = Inr b
      \<and> limit_denominator m (10 ^ 9) = Inr (mass b)
      \<and> limit_denominator sz (10 ^ 9) = Inr (size_blk b)
      \<and> (snd (quotient_of m) \<le> 10 ^ 9 \<longrightarrow> mass b = m)
      \<and> (snd (quotient_of sz) \<le> 10 ^ 9 \<longrightarrow> size_blk b = sz)"
    by blast
qed

text \<open>Masses 0 and \<open>-3\<close> and a size \<open>-3\<close> are accepted and stored.\<close>

theorem reset_accepts_any_mass_witness:
  "snd (quotient_of 0) \<le> 10 ^ 9 \<and> snd (quotient_of (- 3)) \<le> 10 ^ 9
   \<and> (\<exists>s'. reset (initial_sim 1200) 0 (- 3) (- 5) = Inr s'
        \<and> mass (block_0 s') = 0 \<and> mass (block_1 s') = - 3)
   \<and> (\<exists>b. Block2D_init 0 0 150 (- 3) = Inr b \<and> mass b = 0 \<and> size_blk b = - 3)"
  using reset_accepts_any_mass[of "initial_sim 1200" 0 "- 3" "- 5" 0 0 150 "- 3"]
  by auto

text \<open>
  The claim C2 as stated fails: \<open>reset\<close> with masses 0 and \<open>-3\<close> returns a state holding
  them, and the constructor builds blocks of size \<open>-30\<close> and of mass and size 0.
\<close>

theorem reset_nonpositive_mass_counterexample:
  "reset (initial_sim 1200) 0 (- 3) (- 5) =
     Inr ((initial_sim 1200)\<lparr>block_0 := \<lparr>mass = 0, v = 0, x = 150, size_blk = 30\<rparr>,
            block_1 := \<lparr>mass = - 3, v = - 5, x = 600, size_blk = 60\<rparr>,
            total_energy := - (75 / 2), total_momentum := 15,
            initial_energy := - (75 / 2), initial_momentum := 15\<rparr>)
   \<and> Block2D_init 1 0 150 (- 30) = Inr \<lparr>mass = 1, v = 0, x = 150, size_blk = - 30\<rparr>
   \<and> Block2D_init 0 0 150 0 = Inr \<lparr>mass = 0, v = 0, x = 150, size_blk = 0\<rparr>"
  by code_simp

text \<open>
  Claim C3, as the code has it. The two conserved quantities are capped with the fixed bound
  \<open>10^9\<close>, whatever the current \<open>simplify_denominator\<close> is:
  \<open>_total_energy = limit_denominator((m0*v0^2 + m1*v1^2)/2, 10^9)\<close> and
  \<open>_total_momentum = limit_denominator(m0*v0 + m1*v1, 10^9)\<close>; and after every collision
  resolution and every reset the cached \<open>total_energy\<close> and \<open>total_momentum\<close> are these
  values for the new state.
\<close>

theorem totals_capped_at_fixed_bound:
  "total_energy_fn s =
     limit_denominator
       ((mass (block_0 s) * (v (block_0 s))\<^sup>2 + mass (block_1 s) * (v (block_1 s))\<^sup>2) / 2) (10 ^ 9)
   \<and> total_momentum_fn s =
     limit_denominator
       (mass (block_0 s) * v (block_0 s) + mass (block_1 s) * v (block_1 s)) (10 ^ 9)
   \<and> (\<forall>c s'. handle_collision s c = Inr s' \<longrightarrow>
        total_energy_fn s' = Inr (total_energy s')
      \<and> total_momentum_fn s' = Inr (total_momentum s'))
   \<and> (\<forall>m0 m1 v1 s'. reset s m0 m1 v1 = Inr s' \<longrightarrow>
        total_energy_fn s' = Inr (total_energy s')
      \<and> total_momentum_fn s' = Inr (total_momentum s'))"
proof (intro conjI allI impI)
  show "total_energy_fn s =
     limit_denominator
       ((mass (block_0 s) * (v (block_0 s))\<^sup>2 + mass (block_1 s) * (v (block_1 s))\<^sup>2) / 2) (10 ^ 9)"
    by (simp add: total_energy_fn_def add_divide_distrib)
  show "total_momentum_fn s =
     limit_denominator
       (mass (block_0 s) * v (block_0 s) + mass (block_1 s) * v (block_1 s)) (10 ^ 9)"
    by (simp add: total_momentum_fn_def)
next
  fix c s' assume h: "handle_collision s c = Inr s'"
  show "total_energy_fn s' = Inr (total_energy s')"
    and "total_momentum_fn s' = Inr (total_momentum s')"
    using handle_collision_totals[OF h] by simp_all
next
  fix m0 m1 v1 s' assume r: "reset s m0 m1 v1 = Inr s'"
  with reset_result[of s m0 m1 v1]
  show "total_energy_fn s' = Inr (total_energy s')"
    and "total_momentum_fn s' = Inr (total_momentum s')"
    by auto
qed

text \<open>At cap \<open>10^3\<close>: after a wall bounce and after a reset the caches hold the values capped at \<open>10^9\<close>.\<close>

theorem totals_capped_at_fixed_bound_witness:
  "handle_collision low_precision_sim ''wall_0'' = Inr bounced_sim
   \<and> total_energy_fn bounced_sim = Inr (total_energy bounced_sim)
   \<and> total_momentum_fn bounced_sim = Inr (total_momentum bounced_sim)
   \<and> reset low_precision_sim 1 100 (- 1) = Inr restarted_sim
   \<and> total_energy_fn restarted_sim = Inr (total_energy restarted_sim)
   \<and> total_momentum_fn restarted_sim = Inr (total_momentum restarted_sim)"
proof -
  have h: "handle_collision low_precision_sim ''wall_0'' = Inr bounced_sim"
    by code_simp
  have r: "reset low_precision_sim 1 100 (- 1) = Inr restarted_sim"
    by code_simp
  note th = totals_capped_at_fixed_bound[of low_precision_sim]
  from th h have a: "total_energy_fn bounced_sim = Inr (total_energy bounced_sim)
      \<and> total_momentum_fn bounced_sim = Inr (total_momentum bounced_sim)"
    by blast
  from th r have b: "total_energy_fn restarted_sim = Inr (total_energy restarted_sim)
      \<and> total_momentum_fn restarted_sim = Inr (total_momentum restarted_sim)"
    by blast
  from h r a b show ?thesis by blast
qed

text \<open>
  The claim C3 as stated fails at cap \<open>10^3\<close>: after the wall bounce the cached energy is
  \<open>1/14000000\<close> and the cached momentum \<open>1/7000\<close>, whereas capping with the current
  \<open>simplify_denominator\<close> would give 0 for both.
\<close>

theorem totals_cap_counterexample:
  "handle_collision low_precision_sim ''wall_0'' = Inr bounced_sim
   \<and> total_energy bounced_sim = 1 / 14000000
   \<and> total_momentum bounced_sim = 1 / 7000
   \<and> limit_denominator
        ((mass (block_0 bounced_sim) * (v (block_0 bounced_sim))\<^sup>2
          + mass (block_1 bounced_sim) * (v (block_1 bounced_sim))\<^sup>2) / 2)
        (simplify_denominator bounced_sim) = Inr 0
   \<and> limit_denominator
        (mass (block_0 bounced_sim) * v (block_0 bounced_sim)
          + mass (block_1 bounced_sim) * v (block_1 bounced_sim))
        (simplify_denominator bounced_sim) = Inr 0
   \<and> Inr (total_energy bounced_sim) \<noteq>
       limit_denominator
        ((mass (block_0 bounced_sim) * (v (block_0 bounced_sim))\<^sup>2
          + mass (block_1 bounced_sim) * (v (block_1 bounced_sim))\<^sup>2) / 2)
        (simplify_denominator bounced_sim)
   \<and> Inr (total_momentum bounced_sim) \<noteq>
       limit_denominator
        (mass (block_0 bounced_sim) * v (block_0 bounced_sim)
          + mass (block_1 bounced_sim) * v (block_1 bounced_sim))
        (simplify_denominator bounced_sim)"
  by code_simp

text \<open>
  Claim C4. \<open>detect_collisions\<close> returns the first classification that matches, in the
  order wall 0, wall 1, blocks, and \<open>None\<close> when none does. It returns one optional
  classification and no state: the method assigns nothing.
\<close>

theorem detect_collisions_priority:
  "detect_collisions s =
     (if x (block_0 s) \<le> size_blk (block_0 s) / 2 \<and> v (block_0 s) < 0 then Some ''wall_0''
      else if x (block_1 s) \<le> size_blk (block_1 s) / 2 \<and> v (block_1 s) < 0 then Some ''wall_1''
      else if x (block_1 s) - x (block_0 s) \<le> (size_blk (block_0 s) + size_blk (block_1 s)) / 2
              \<and> v (block_0 s) > v (block_1 s) then Some ''blocks''
      else None)"
  by (simp add: detect_collisions_def Let_def)

text \<open>With all three conditions true at once, the answer is wall 0.\<close>

theorem detect_collisions_priority_witness:
  "x (block_0 crowded_sim) \<le> size_blk (block_0 crowded_sim) / 2 \<and> v (block_0 crowded_sim) < 0
   \<and> x (block_1 crowded_sim) \<le> size_blk (block_1 crowded_sim) / 2 \<and> v (block_1 crowded_sim) < 0
   \<and> x (block_1 crowded_sim) - x (block_0 crowded_sim)
        \<le> (size_blk (block_0 crowded_sim) + size_blk (block_1 crowded_sim)) / 2
   \<and> v (block_0 crowded_sim) > v (block_1 crowded_sim)
   \<and> detect_collisions crowded_sim = Some ''wall_0''"
  using detect_collisions_priority [of crowded_sim]
  by (simp add: crowded_sim_def initial_sim_def)

text \<open>
  Claim C5. On a state that is not paused: when the detector classifies the state before the
  move, \<open>update\<close> is exactly the resolution of that classification on the unmoved state
  (no position advance, no counter tick); whenever \<open>update\<close> returns, \<open>total_collisions\<close>
  has grown by exactly 1 if a collision was resolved (before or after the move) and by 0
  otherwise, so by at most 1; and \<open>update\<close> does return when the masses do not sum to
  zero and the cap is at least 1.
\<close>

theorem update_collision_count:
  assumes "\<not> paused s"
  shows "(\<forall>c. detect_collisions s = Some c \<longrightarrow> update s = handle_collision s c)
       \<and> (\<forall>s'. update s = Inr s' \<longrightarrow>
            total_collisions s \<le> total_collisions s'
          \<and> total_collisions s' \<le> total_collisions s + 1
          \<and> total_collisions s' =
              (if detect_collisions s = None \<and> detect_collisions (move_blocks s) = None
               then total_collisions s else total_collisions s + 1))
       \<and> (mass (block_0 s) + mass (block_1 s) \<noteq> 0 \<and> 1 \<le> simplify_denominator s
            \<longrightarrow> (\<exists>s'. update s = Inr s'))"
proof (intro conjI allI impI)
  fix c assume "detect_collisions s = Some c"
  with assms show "update s = handle_collision s c" by (rule update_unpaused_Some)
next
  fix s' assume u: "update s = Inr s'"
  note c = update_counters(1)[OF assms u]
  show "total_collisions s' =
              (if detect_collisions s = None \<and> detect_collisions (move_blocks s) = None
               then total_collisions s else total_collisions s + 1)" by (rule c)
  show "total_collisions s \<le> total_collisions s'" using c by (simp split: if_splits)
  show "total_collisions s' \<le> total_collisions s + 1" using c by (simp split: if_splits)
next
  assume "mass (block_0 s) + mass (block_1 s) \<noteq> 0 \<and> 1 \<le> simplify_denominator s"
  then show "\<exists>s'. update s = Inr s'" using update_total by blast
qed

text \<open>Blocks in contact: the step is the block-block resolution, and counts one collision.\<close>

theorem update_collision_count_witness:
  "\<not> paused touching_sim
   \<and> detect_collisions touching_sim = Some ''blocks''
   \<and> mass (block_0 touching_sim) + mass (block_1 touching_sim) \<noteq> 0
   \<and> 1 \<le> simplify_denominator touching_sim
   \<and> update touching_sim =
       Inr (touching_sim\<lparr>block_0 := \<lparr>mass = 1, v = - (200 / 101), x = 150, size_blk = 30\<rparr>,
              block_1 := \<lparr>mass = 100, v = - (99 / 101), x = 195, size_blk = 60\<rparr>,
              block_collisions := 1, total_collisions := 1\<rparr>)
   \<and> update touching_sim = handle_collision touching_sim ''blocks''
   \<and> total_collisions touching_sim = 0"
proof -
  have np: "\<not> paused touching_sim" by (simp add: touching_sim_def initial_sim_def)
  have d: "detect_collisions touching_sim = Some ''blocks''" by code_simp
  have u: "update touching_sim =
       Inr (touching_sim\<lparr>block_0 := \<lparr>mass = 1, v = - (200 / 101), x = 150, size_blk = 30\<rparr>,
              block_1 := \<lparr>mass = 100, v = - (99 / 101), x = 195, size_blk = 60\<rparr>,
              block_collisions := 1, total_collisions := 1\<rparr>)"
    by code_simp
  from update_collision_count[OF np] d have "update touching_sim = handle_collision touching_sim ''blocks''"
    by blast
  then show ?thesis using np d u by (simp add: touching_sim_def initial_sim_def)
qed

text \<open>
  Claim C6. In the constructed state and in every state reached from it by any sequence of
  steps, resets, speed and precision adjustments and pause toggles,
  \<open>total_collisions = wall_collisions + block_collisions\<close>; and along any further sequence
  without a reset none of the three counters decreases.
\<close>

theorem counters_consistent:
  assumes "Simulation_init w = Inr s0"
    and "run s0 cmds = Inr s"
    and "list_all (\<lambda>c. \<not> is_reset c) later"
    and "run s later = Inr s'"
  shows "total_collisions s0 = wall_collisions s0 + block_collisions s0
       \<and> total_collisions s = wall_collisions s + block_collisions s
       \<and> total_collisions s' = wall_collisions s' + block_collisions s'
       \<and> wall_collisions s \<le> wall_collisions s'
       \<and> block_collisions s \<le> block_collisions s'
       \<and> total_collisions s \<le> total_collisions s'"
proof -
  from assms(1) have "s0 = initial_sim w" by (simp add: init_eval)
  then have i0: "total_collisions s0 = wall_collisions s0 + block_collisions s0"
    by (simp add: initial_sim_def)
  from run_consistent[OF assms(2) i0]
  have i1: "total_collisions s = wall_collisions s + block_collisions s" .
  from run_consistent[OF assms(4) i1]
  have i2: "total_collisions s' = wall_collisions s' + block_collisions s'" .
  from run_mono[OF assms(4) assms(3)] i0 i1 i2 show ?thesis by simp
qed

text \<open>A reset and a precision change, then a step with a collision, a speed change and a pause.\<close>

theorem counters_consistent_witness:
  "Simulation_init 1200 = Inr (initial_sim 1200)
   \<and> run (initial_sim 1200) [Reset 1 100 (- 40500), AdjustPrecision False] = Inr fast_sim
   \<and> list_all (\<lambda>c. \<not> is_reset c) [Update, AdjustSpeed True, TogglePause]
   \<and> run fast_sim [Update, AdjustSpeed True, TogglePause] = Inr collided_sim
   \<and> total_collisions collided_sim = wall_collisions collided_sim + block_collisions collided_sim
   \<and> total_collisions fast_sim \<le> total_collisions collided_sim
   \<and> total_collisions collided_sim = 1"
proof -
  have a: "Simulation_init 1200 = Inr (initial_sim 1200)" by code_simp
  have b: "run (initial_sim 1200) [Reset 1 100 (- 40500), AdjustPrecision False] = Inr fast_sim"
    by code_simp
  have c: "list_all (\<lambda>c. \<not> is_reset c) [Update, AdjustSpeed True, TogglePause]" by simp
  have d: "run fast_sim [Update, AdjustSpeed True, TogglePause] = Inr collided_sim"
    by code_simp
  have e: "total_collisions collided_sim = 1"
    by (simp add: collided_sim_def)
  from counters_consistent[OF a b c d] a b c d e show ?thesis by simp
qed

text \<open>
  Claim C7. Resolving \<^verbatim>\<open>"wall_0"\<close> on any state returns, and in the new state block 0's
  velocity is exactly the negation of the old one (no capping), its position is exactly
  \<open>size / 2\<close>, block 1 is untouched, and \<open>wall_collisions\<close> and \<open>total_collisions\<close> have
  each grown by exactly 1 (\<open>block_collisions\<close> is unchanged). The same holds for
  \<^verbatim>\<open>"wall_1"\<close> with the blocks exchanged.
\<close>

theorem wall_reflection_exact:
  "(\<exists>s'. handle_collision s ''wall_0'' = Inr s'
      \<and> v (block_0 s') = - v (block_0 s)
      \<and> x (block_0 s') = size_blk (block_0 s) / 2
      \<and> mass (block_0 s') = mass (block_0 s)
      \<and> size_blk (block_0 s') = size_blk (block_0 s)
      \<and> block_1 s' = block_1 s
      \<and> wall_collisions s' = wall_collisions s + 1
      \<and> total_collisions s' = total_collisions s + 1
      \<and> block_collisions s' = block_collisions s)
   \<and> (\<exists>s'. handle_collision s ''wall_1'' = Inr s'
      \<and> v (block_1 s') = - v (block_1 s)
      \<and> x (block_1 s') = size_blk (block_1 s) / 2
      \<and> mass (block_1 s') = mass (block_1 s)
      \<and> size_blk (block_1 s') = size_blk (block_1 s)
      \<and> block_0 s' = block_0 s
      \<and> wall_collisions s' = wall_collisions s + 1
      \<and> total_collisions s' = total_collisions s + 1
      \<and> block_collisions s' = block_collisions s)"
proof (rule conjI)
  obtain e p where "handle_collision s ''wall_0'' =
     Inr (s\<lparr>block_0 := (block_0 s)\<lparr>v := - v (block_0 s), x := size_blk (block_0 s) / 2\<rparr>,
            wall_collisions := wall_collisions s + 1,
            total_collisions := total_collisions s + 1,
            total_energy := e, total_momentum := p\<rparr>)"
    using handle_collision_wall_0 by blast
  then show "\<exists>s'. handle_collision s ''wall_0'' = Inr s'
      \<and> v (block_0 s') = - v (block_0 s)
      \<and> x (block_0 s') = size_blk (block_0 s) / 2
      \<and> mass (block_0 s') = mass (block_0 s)
      \<and> size_blk (block_0 s') = size_blk (block_0 s)
      \<and> block_1 s' = block_1 s
      \<and> wall_collisions s' = wall_collisions s + 1
      \<and> total_collisions s' = total_collisions s + 1
      \<and> block_collisions s' = block_collisions s"
    by simp
next
  obtain e p where "handle_collision s ''wall_1'' =
     Inr (s\<lparr>block_1 := (block_1 s)\<lparr>v := - v (block_1 s), x := size_blk (block_1 s) / 2\<rparr>,
            wall_collisions := wall_collisions s + 1,
            total_collisions := total_collisions s + 1,
            total_energy := e, total_momentum := p\<rparr>)"
    using handle_collision_wall_1 by blast
  then show "\<exists>s'. handle_collision s ''wall_1'' = Inr s'
      \<and> v (block_1 s') = - v (block_1 s)
      \<and> x (block_1 s') = size_blk (block_1 s) / 2
      \<and> mass (block_1 s') = mass (block_1 s)
      \<and> size_blk (block_1 s') = size_blk (block_1 s)
      \<and> block_0 s' = block_0 s
      \<and> wall_collisions s' = wall_collisions s + 1
      \<and> total_collisions s' = total_collisions s + 1
      \<and> block_collisions s' = block_collisions s"
    by simp
qed

text \<open>The bounce of block 0 in the low-precision state.\<close>

theorem wall_reflection_exact_witness:
  "handle_collision low_precision_sim ''wall_0'' = Inr bounced_sim
   \<and> v (block_0 bounced_sim) = - v (block_0 low_precision_sim)
   \<and> x (block_0 bounced_sim) = size_blk (block_0 low_precision_sim) / 2
   \<and> wall_collisions bounced_sim = wall_collisions low_precision_sim + 1
   \<and> total_collisions bounced_sim = total_collisions low_precision_sim + 1"
proof -
  have h: "handle_collision low_precision_sim ''wall_0'' = Inr bounced_sim"
    by code_simp
  from wall_reflection_exact[of low_precision_sim] h show ?thesis by auto
qed

text \<open>
  Claim C8. On a paused state any number of \<open>update\<close> calls returns the very same state:
  no field changes.
\<close>

theorem paused_update_identity:
  "paused s \<Longrightarrow> update_times n s = Inr s"
  by (induction n) (simp_all add: update_def)

text \<open>Five steps on the paused initial state.\<close>

theorem paused_update_identity_witness:
  "paused ((initial_sim 1200)\<lparr>paused := True\<rparr>)
   \<and> update_times 5 ((initial_sim 1200)\<lparr>paused := True\<rparr>) = Inr ((initial_sim 1200)\<lparr>paused := True\<rparr>)"
  using paused_update_identity [of "(initial_sim 1200)\<lparr>paused := True\<rparr>" 5]
  by simp

text \<open>
  Claim C9, as the code has it. \<open>reset\<close> always returns, with the three collision counters
  and \<open>simplify_counter\<close> at 0, block 0 at \<open>x = 150\<close> with velocity 0, block 1 at
  \<open>x = 600\<close> with velocity \<open>v1\<close> capped at denominator \<open>10^9\<close> (which is \<open>v1\<close> itself when its
  denominator is at most \<open>10^9\<close>), and \<open>initial_energy\<close>, \<open>initial_momentum\<close> equal to
  \<open>total_energy\<close>, \<open>total_momentum\<close>, themselves the freshly computed totals of the new blocks.
\<close>

theorem reset_baseline:
  "\<exists>s'. reset s m0 m1 v1 = Inr s'
     \<and> wall_collisions s' = 0 \<and> block_collisions s' = 0 \<and> total_collisions s' = 0
     \<and> simplify_counter s' = 0
     \<and> x (block_0 s') = 150 \<and> v (block_0 s') = 0
     \<and> x (block_1 s') = 600
     \<and> limit_denominator v1 (10 ^ 9) = Inr (v (block_1 s'))
     \<and> (snd (quotient_of v1) \<le> 10 ^ 9 \<longrightarrow> v (block_1 s') = v1)
     \<and> total_energy_fn s' = Inr (total_energy s')
     \<and> total_momentum_fn s' = Inr (total_momentum s')
     \<and> initial_energy s' = total_energy s'
     \<and> initial_momentum s' = total_momentum s'"
proof -
  obtain s' where r: "reset s m0 m1 v1 = Inr s'"
    and f: "wall_collisions s' = 0" "block_collisions s' = 0" "total_collisions s' = 0"
      "simplify_counter s' = 0" "x (block_0 s') = 150" "v (block_0 s') = 0" "x (block_1 s') = 600"
      "limit_denominator v1 (10 ^ 9) = Inr (v (block_1 s'))"
      "total_energy_fn s' = Inr (total_energy s')"
      "total_momentum_fn s' = Inr (total_momentum s')"
      "initial_energy s' = total_energy s'" "initial_momentum s' = total_momentum s'"
    using reset_result[of s m0 m1 v1] by blast
  have "snd (quotient_of v1) \<le> 10 ^ 9 \<longrightarrow> v (block_1 s') = v1"
  proof
    assume "snd (quotient_of v1) \<le> 10 ^ 9"
    then have "limit_denominator v1 (10 ^ 9) = Inr v1"
      by (intro limit_denominator_small) simp_all
    with f(8) show "v (block_1 s') = v1" by simp
  qed
  with r f show ?thesis by blast
qed

text \<open>\<^verbatim>\<open>reset(1, 100, -1)\<close> on the constructed state.\<close>

theorem reset_baseline_witness:
  "snd (quotient_of (- 1)) \<le> 10 ^ 9
   \<and> reset (initial_sim 1200) 1 100 (- 1) =
       Inr ((initial_sim 1200)\<lparr>block_1 := \<lparr>mass = 100, v = - 1, x = 600, size_blk = 60\<rparr>,
              total_energy := 50, total_momentum := - 100,
              initial_energy := 50, initial_momentum := - 100\<rparr>)"
proof -
  have q: "snd (quotient_of (- 1)) \<le> 10 ^ 9" by simp
  obtain s' where r: "reset (initial_sim 1200) 1 100 (- 1) = Inr s'"
    and vv: "snd (quotient_of (- 1)) \<le> 10 ^ 9 \<longrightarrow> v (block_1 s') = - 1"
    using reset_baseline[of "initial_sim 1200" 1 100 "- 1"] by blast
  have e: "reset (initial_sim 1200) 1 100 (- 1) =
       Inr ((initial_sim 1200)\<lparr>block_1 := \<lparr>mass = 100, v = - 1, x = 600, size_blk = 60\<rparr>,
              total_energy := 50, total_momentum := - 100,
              initial_energy := 50, initial_momentum := - 100\<rparr>)"
    by code_simp
  show ?thesis using q e vv r by simp
qed

text \<open>
  The claim C9 as stated fails for a velocity of denominator above \<open>10^9\<close>:
  \<^verbatim>\<open>reset(1, 10000, Fraction(1, 10**9 + 1))\<close> stores the velocity \<open>1/10^9\<close>.
\<close>

theorem reset_velocity_counterexample:
  "reset (initial_sim 1200) 1 10000 (1 / 1000000001) =
     Inr ((initial_sim 1200)\<lparr>block_1 := \<lparr>mass = 10000, v = 1 / 1000000000, x = 600, size_blk = 60\<rparr>,
            total_energy := 0, total_momentum := 1 / 100000,
            initial_energy := 0, initial_momentum := 1 / 100000\<rparr>)
   \<and> (1 / 1000000000 :: rat) \<noteq> 1 / 1000000001"
  by code_simp

text \<open>
  Claim C10. \<open>reset\<close> always returns and leaves \<open>paused\<close>, \<open>simulation_speed\<close> and
  \<open>simplify_denominator\<close> as they were.
\<close>

theorem reset_keeps_pause_and_tuning:
  "\<exists>s'. reset s m0 m1 v1 = Inr s'
     \<and> paused s' = paused s
     \<and> simulation_speed s' = simulation_speed s
     \<and> simplify_denominator s' = simplify_denominator s"
  using reset_result[of s m0 m1 v1] by blast

text \<open>A reset of the paused, tuned state after the collision keeps pause, speed and cap.\<close>

theorem reset_keeps_pause_and_tuning_witness:
  "\<exists>s'. reset collided_sim 1 100 (- 1) = Inr s'
     \<and> paused s' \<and> simulation_speed s' = 512 \<and> simplify_denominator s' = 100000000"
  using reset_keeps_pause_and_tuning[of collided_sim 1 100 "- 1"]
  by (simp add: collided_sim_def fast_sim_def initial_sim_def)

end
